theory Spec2Isabelle
  imports Complex_Main "HOL-Library.Char_ord" "HOL-Library.List_Lexorder"
begin

section \<open>Technical audit service: data model\<close>

text \<open>
  The development follows \<^verbatim>\<open>TechnicalAuditService\<close> (the
  \<^verbatim>\<open>technical-audit.service.ts\<close> source). JavaScript numbers that are
  integers by construction are \<open>int\<close>; the Lighthouse scores are rationals and their
  arithmetic is exact, which is what the doubles of the source compute on the
  integer-valued scores of the examples below.
  A value that may be \<^verbatim>\<open>undefined\<close> or \<^verbatim>\<open>null\<close> is an \<open>option\<close>.
  A call into the browser either returns a value or throws; the cause is kept.
\<close>

datatype audit_type = Basic | Comprehensive | Performance | Seo

datatype browser_failure = TimeoutError | OtherError

datatype 'a outcome = Threw browser_failure | Returned 'a

datatype audit_error = ClinicNotFound | PageFailed | StoreFailed

subsection \<open>Mobile optimisation\<close>

record mobile_dom =
  viewportContent :: "string option"
  innerWidth :: nat

record mobile_result =
  viewportConfiguration :: bool
  responsiveDesign :: bool
  touchTargetSize :: bool
  mobileFirstIndex :: bool
  mo_score :: int

text \<open>\<^verbatim>\<open>String.prototype.includes\<close>: the needle occurs as a contiguous substring.\<close>

fun str_includes :: "string \<Rightarrow> string \<Rightarrow> bool" where
  "str_includes [] t = (t = [])"
| "str_includes (c # cs) t = (take (length t) (c # cs) = t \<or> str_includes cs t)"

text \<open>
  The data computed inside \<^verbatim>\<open>page.evaluate\<close>: the content attribute defaults to
  the empty string, the last two flags are constants.
\<close>

definition mobileData :: "mobile_dom \<Rightarrow> bool list" where
  "mobileData d =
     (let viewportContent' = (case viewportContent d of None \<Rightarrow> [] | Some c \<Rightarrow> c)
      in [str_includes viewportContent' ''width=device-width'',
          innerWidth d \<le> 768,
          True,
          True])"

definition auditMobileOptimization :: "mobile_dom outcome \<Rightarrow> audit_error + mobile_result" where
  "auditMobileOptimization obs =
     (case obs of
        Threw _ \<Rightarrow> Inl PageFailed
      | Returned d \<Rightarrow>
          (let vals = mobileData d;
               score = int (length (filter (\<lambda>b. b) vals)) * 25
           in Inr \<lparr>viewportConfiguration = vals ! 0,
                   responsiveDesign = vals ! 1,
                   touchTargetSize = vals ! 2,
                   mobileFirstIndex = vals ! 3,
                   mo_score = score\<rparr>))"

subsection \<open>Crawlability\<close>

record crawl_result =
  cr_score :: int
  robotsTxt :: bool
  sitemapValid :: bool
  crawlErrors :: nat
  indexablePages :: nat
  blockedPages :: nat

text \<open>
  \<^verbatim>\<open>new URL(url).origin\<close> is evaluated before the \<^verbatim>\<open>try\<close>: an unparsable URL
  (\<open>None\<close>) rejects the check. Inside the \<^verbatim>\<open>try\<close> the sitemap is only requested
  once the robots request has returned; any throw there gives the fallback result.
\<close>

definition auditCrawlability ::
  "string option \<Rightarrow> nat outcome \<Rightarrow> nat outcome \<Rightarrow> audit_error + crawl_result" where
  "auditCrawlability origin robotsResponse sitemapResponse =
     (case origin of
        None \<Rightarrow> Inl PageFailed
      | Some domain \<Rightarrow>
          (case robotsResponse of
             Threw _ \<Rightarrow>
               Inr \<lparr>cr_score = 60, robotsTxt = False, sitemapValid = False,
                    crawlErrors = 1, indexablePages = 0, blockedPages = 0\<rparr>
           | Returned rs \<Rightarrow>
               (case sitemapResponse of
                  Threw _ \<Rightarrow>
                    Inr \<lparr>cr_score = 60, robotsTxt = False, sitemapValid = False,
                         crawlErrors = 1, indexablePages = 0, blockedPages = 0\<rparr>
                | Returned ss \<Rightarrow>
                    (let robotsTxt' = (rs = 200); sitemapValid' = (ss = 200)
                     in Inr \<lparr>cr_score = 85 + (if robotsTxt' then 10 else 0)
                                         + (if sitemapValid' then 5 else 0),
                             robotsTxt = robotsTxt', sitemapValid = sitemapValid',
                             crawlErrors = 0, indexablePages = 0, blockedPages = 0\<rparr>))))"

text \<open>The additive formula of the design document, for comparison.\<close>

definition crawlability_score_spec :: "bool \<Rightarrow> bool \<Rightarrow> int" where
  "crawlability_score_spec robots2xx sitemapOk =
     min 100 (70 + (if robots2xx then 20 else 0) + (if sitemapOk then 10 else 0))"

subsection \<open>Schema markup\<close>

text \<open>
  One JSON-LD script block. \<open>Malformed\<close>: \<^verbatim>\<open>JSON.parse\<close> threw and the
  \<^verbatim>\<open>catch\<close> returned \<^verbatim>\<open>null\<close>. \<open>ParsedFalsy\<close>: the text parsed to a falsy
  value. \<open>Parsed\<close>: a truthy value, of which the check reads three properties:
  \<open>atType\<close> is \<open>Some t\<close> when \<^verbatim>\<open>s['@type']\<close> is the string \<open>t\<close>, the other two say
  whether the property is truthy.
\<close>

record ld_obj =
  atType :: "string option"
  review :: bool
  aggregateRating :: bool

datatype ld_block = Malformed | ParsedFalsy | Parsed ld_obj

record schema_data =
  localBusinessSchema :: bool
  dentistSchema :: bool
  faqSchema :: bool
  reviewSchema :: bool
  organizationSchema :: bool
  schemas :: "ld_obj list"

record schema_result = schema_data +
  sc_score :: int
  validationErrors :: nat

text \<open>\<^verbatim>\<open>jsonLdScripts.map(...).filter(Boolean)\<close>\<close>

fun parsedSchemas :: "ld_block list \<Rightarrow> ld_obj list" where
  "parsedSchemas [] = []"
| "parsedSchemas (Parsed s # bs) = s # parsedSchemas bs"
| "parsedSchemas (_ # bs) = parsedSchemas bs"

definition hasType :: "string list \<Rightarrow> ld_obj \<Rightarrow> bool" where
  "hasType ts s = (case atType s of None \<Rightarrow> False | Some t \<Rightarrow> t \<in> set ts)"

definition schemaData :: "ld_block list \<Rightarrow> schema_data" where
  "schemaData blocks =
     (let ss = parsedSchemas blocks
      in \<lparr>localBusinessSchema = list_ex (hasType [''LocalBusiness'', ''DentalClinic'']) ss,
          dentistSchema = list_ex (hasType [''Dentist'', ''DentalClinic'']) ss,
          faqSchema = list_ex (hasType [''FAQPage'']) ss,
          reviewSchema = list_ex (\<lambda>s. review s \<or> aggregateRating s) ss,
          organizationSchema = list_ex (hasType [''Organization'']) ss,
          schemas = ss\<rparr>)"

definition calculateSchemaScore :: "schema_data \<Rightarrow> int" where
  "calculateSchemaScore d =
     (let score = 0;
          score = (if localBusinessSchema d then score + 30 else score);
          score = (if dentistSchema d then score + 25 else score);
          score = (if faqSchema d then score + 20 else score);
          score = (if reviewSchema d then score + 15 else score);
          score = (if organizationSchema d then score + 10 else score)
      in score)"

definition auditSchemaMarkup :: "ld_block list outcome \<Rightarrow> audit_error + schema_result" where
  "auditSchemaMarkup obs =
     (case obs of
        Threw _ \<Rightarrow> Inl PageFailed
      | Returned blocks \<Rightarrow>
          (let d = schemaData blocks; score = calculateSchemaScore d
           in Inr (schema_data.extend d
                     (schema_result.fields score 0))))"

text \<open>The scoring rule of the design document, for comparison.\<close>

definition malformedCount :: "ld_block list \<Rightarrow> nat" where
  "malformedCount blocks = length (filter (\<lambda>b. b = Malformed) blocks)"

definition schema_score_spec :: "ld_block list \<Rightarrow> int" where
  "schema_score_spec blocks =
     (let d = schemaData blocks;
          points = (if localBusinessSchema d then 30 else 0) + (if dentistSchema d then 25 else 0)
                 + (if faqSchema d then 20 else 0) + (if reviewSchema d then 15 else 0)
                 + (if organizationSchema d then 10 else 0)
      in max 0 (min 100 points - 2 * int (malformedCount blocks)))"

subsection \<open>Page speed and SEO elements\<close>

record lh_report =
  lh_performance :: rat
  lh_speed_index :: rat
  lh_fcp :: rat
  lh_lcp :: rat
  lh_max_fid :: rat
  lh_cls :: rat

record speed_metrics =
  sp_score :: rat
  loadTime :: rat
  firstContentfulPaint :: rat
  largestContentfulPaint :: rat
  firstInputDelay :: rat
  cumulativeLayoutShift :: rat

record site_speed =
  desktop :: speed_metrics
  mobile :: speed_metrics

definition speedMetrics :: "lh_report \<Rightarrow> speed_metrics" where
  "speedMetrics r =
     \<lparr>sp_score = lh_performance r * 100, loadTime = lh_speed_index r,
      firstContentfulPaint = lh_fcp r, largestContentfulPaint = lh_lcp r,
      firstInputDelay = lh_max_fid r, cumulativeLayoutShift = lh_cls r\<rparr>"

text \<open>
  The two Lighthouse runs happen in sequence inside one \<^verbatim>\<open>try\<close>; a throw in either
  is caught and the check returns \<^verbatim>\<open>{ siteSpeed: null }\<close>. It never rejects.
\<close>

definition auditPageSpeed :: "lh_report outcome \<Rightarrow> lh_report outcome \<Rightarrow> site_speed option" where
  "auditPageSpeed desktopRun mobileRun =
     (case desktopRun of
        Threw _ \<Rightarrow> None
      | Returned desktopResult \<Rightarrow>
          (case mobileRun of
             Threw _ \<Rightarrow> None
           | Returned mobileResult \<Rightarrow>
               Some \<lparr>desktop = speedMetrics desktopResult, mobile = speedMetrics mobileResult\<rparr>))"

record seo_data =
  seo_title :: string
  metaDescription :: "string option"
  h1Count :: nat
  h2Count :: nat
  imgCount :: nat
  imgAltMissing :: nat
  internalLinks :: nat
  externalLinks :: nat
  canonicalUrl :: "string option"
  robots :: "string option"

definition auditSEOElements :: "seo_data outcome \<Rightarrow> audit_error + seo_data" where
  "auditSEOElements obs = (case obs of Threw _ \<Rightarrow> Inl PageFailed | Returned seoData \<Rightarrow> Inr seoData)"

subsection \<open>Auditing one page\<close>

text \<open>
  What the browser and the network give for one URL: one outcome per external call the
  page audit makes. \<open>urlOrigin\<close> is \<open>None\<close> when \<^verbatim>\<open>new URL(url)\<close> throws.
\<close>

record page_env =
  browserLaunch :: "unit outcome"
  pageSetup :: "unit outcome"
  lighthouseDesktop :: "lh_report outcome"
  lighthouseMobile :: "lh_report outcome"
  seoDom :: "seo_data outcome"
  ldJsonBlocks :: "ld_block list outcome"
  urlOrigin :: "string option"
  robotsResponse :: "nat outcome"
  sitemapResponse :: "nat outcome"
  mobileDom :: "mobile_dom outcome"
  browserClose :: "unit outcome"
  clock :: string

record page_results =
  siteSpeed :: "site_speed option"
  seoElements :: "seo_data option"
  schemaMarkup :: "schema_result option"
  crawlability :: "crawl_result option"
  mobileOptimization :: "mobile_result option"

record page_audit =
  url :: string
  timestamp :: string
  results :: page_results

text \<open>The object each check resolves to: one key with its value.\<close>

datatype module_result =
    SiteSpeedR "site_speed option"
  | SeoR seo_data
  | SchemaR schema_result
  | CrawlR crawl_result
  | MobileR mobile_result

definition emptyResults :: page_results where
  "emptyResults = \<lparr>siteSpeed = None, seoElements = None, schemaMarkup = None,
                    crawlability = None, mobileOptimization = None\<rparr>"

text \<open>\<^verbatim>\<open>({ ...acc, ...result })\<close>\<close>

fun mergeResult :: "page_results \<Rightarrow> module_result \<Rightarrow> page_results" where
  "mergeResult acc (SiteSpeedR v) = acc\<lparr>siteSpeed := v\<rparr>"
| "mergeResult acc (SeoR v) = acc\<lparr>seoElements := Some v\<rparr>"
| "mergeResult acc (SchemaR v) = acc\<lparr>schemaMarkup := Some v\<rparr>"
| "mergeResult acc (CrawlR v) = acc\<lparr>crawlability := Some v\<rparr>"
| "mergeResult acc (MobileR v) = acc\<lparr>mobileOptimization := Some v\<rparr>"

text \<open>
  \<^verbatim>\<open>Promise.all\<close>: rejects as soon as one member rejects, otherwise resolves to the
  list of values. Every rejection is the one value \<open>PageFailed\<close> here, so which member
  rejected first does not show.
\<close>

fun promise_all :: "('e + 'a) list \<Rightarrow> 'e + 'a list" where
  "promise_all [] = Inr []"
| "promise_all (Inl e # rs) = Inl e"
| "promise_all (Inr x # rs) = (case promise_all rs of Inl e \<Rightarrow> Inl e | Inr xs \<Rightarrow> Inr (x # xs))"

definition auditPromises :: "page_env \<Rightarrow> audit_type \<Rightarrow> (audit_error + module_result) list" where
  "auditPromises env auditType =
     (if auditType = Comprehensive \<or> auditType = Performance
      then [Inr (SiteSpeedR (auditPageSpeed (lighthouseDesktop env) (lighthouseMobile env)))]
      else [])
     @ (if auditType = Comprehensive \<or> auditType = Seo
        then [map_sum id SeoR (auditSEOElements (seoDom env)),
              map_sum id SchemaR (auditSchemaMarkup (ldJsonBlocks env))]
        else [])
     @ (if auditType = Comprehensive
        then [map_sum id CrawlR
                (auditCrawlability (urlOrigin env) (robotsResponse env) (sitemapResponse env)),
              map_sum id MobileR (auditMobileOptimization (mobileDom env))]
        else [])"

text \<open>
  The second component lists the URLs for which \<^verbatim>\<open>puppeteer.launch\<close> was called by
  this page audit: the launch is the first statement, so it is always the one URL.
  \<^verbatim>\<open>browser.close()\<close> runs in the \<^verbatim>\<open>finally\<close>; a throw there replaces the result.
\<close>

definition auditPage ::
  "page_env \<Rightarrow> string \<Rightarrow> audit_type \<Rightarrow> (audit_error + page_audit) \<times> string list" where
  "auditPage env u auditType =
     (case browserLaunch env of
        Threw _ \<Rightarrow> (Inl PageFailed, [u])
      | Returned _ \<Rightarrow>
          (let body =
                 (case pageSetup env of
                    Threw _ \<Rightarrow> Inl PageFailed
                  | Returned _ \<Rightarrow>
                      (case promise_all (auditPromises env auditType) of
                         Inl e \<Rightarrow> Inl e
                       | Inr rs \<Rightarrow>
                           Inr \<lparr>url = u, timestamp = clock env,
                                results = foldl mergeResult emptyResults rs\<rparr>))
           in (case browserClose env of
                 Threw _ \<Rightarrow> (Inl PageFailed, [u])
               | Returned _ \<Rightarrow> (body, [u]))))"

subsection \<open>Aggregation\<close>

text \<open>
  In \<open>audit_metrics\<close> the value \<open>None\<close> stands for the default object the source puts
  in place of a missing entry (\<^verbatim>\<open>{ desktop: {}, mobile: {} }\<close> or \<^verbatim>\<open>{}\<close>): every
  property read from it is \<^verbatim>\<open>undefined\<close>.
\<close>

record audit_metrics =
  m_siteSpeed :: "site_speed option"
  m_crawlability :: "crawl_result option"
  m_schemaMarkup :: "schema_result option"
  m_mobileOptimization :: "mobile_result option"

definition aggregateAuditResults :: "page_audit list \<Rightarrow> audit_metrics" where
  "aggregateAuditResults pageAudits =
     (let firstPage = (case pageAudits of [] \<Rightarrow> emptyResults | p # _ \<Rightarrow> results p)
      in \<lparr>m_siteSpeed = siteSpeed firstPage,
          m_crawlability = crawlability firstPage,
          m_schemaMarkup = schemaMarkup firstPage,
          m_mobileOptimization = mobileOptimization firstPage\<rparr>)"

text \<open>
  The local \<^verbatim>\<open>firstPage\<close> of \<open>aggregateAuditResults\<close> on its own:
  \<^verbatim>\<open>pageAudits[0]?.results || {}\<close>.
\<close>

definition firstPageResults :: "page_audit list \<Rightarrow> page_results" where
  "firstPageResults pageAudits = (case pageAudits of [] \<Rightarrow> emptyResults | p # _ \<Rightarrow> results p)"

text \<open>\<^verbatim>\<open>x || 0\<close> on a number or \<^verbatim>\<open>undefined\<close>, and \<^verbatim>\<open>Math.round\<close>.\<close>

definition orZero :: "rat option \<Rightarrow> rat" where
  "orZero x = (case x of None \<Rightarrow> 0 | Some v \<Rightarrow> v)"

definition mathRound :: "rat \<Rightarrow> int" where
  "mathRound x = \<lfloor>x + 1 / 2\<rfloor>"

definition metricScores :: "audit_metrics \<Rightarrow> rat list" where
  "metricScores metrics =
     [orZero (map_option (\<lambda>s. sp_score (desktop s)) (m_siteSpeed metrics)),
      orZero (map_option (\<lambda>s. sp_score (mobile s)) (m_siteSpeed metrics)),
      orZero (map_option (\<lambda>c. of_int (cr_score c)) (m_crawlability metrics)),
      orZero (map_option (\<lambda>c. of_int (sc_score c)) (m_schemaMarkup metrics)),
      orZero (map_option (\<lambda>c. of_int (mo_score c)) (m_mobileOptimization metrics))]"

definition calculateOverallScore :: "audit_metrics \<Rightarrow> int" where
  "calculateOverallScore metrics =
     (let scores = metricScores metrics
      in mathRound (foldl (\<lambda>sum score. sum + score) 0 scores / of_nat (length scores)))"

datatype severity = Critical | High | Medium | Low

record issue =
  severity :: severity
  category :: string
  title :: string
  description :: string
  affectedPages :: "string list"
  recommendation :: string

text \<open>A comparison with \<^verbatim>\<open>undefined\<close> is false; \<^verbatim>\<open>!undefined\<close> is true.\<close>

definition identifyIssues :: "audit_metrics \<Rightarrow> issue list" where
  "identifyIssues metrics =
     (if (case m_siteSpeed metrics of None \<Rightarrow> False | Some s \<Rightarrow> sp_score (desktop s) < 70)
      then [\<lparr>severity = High, category = ''performance'', title = ''Poor desktop performance'',
             description = ''Desktop page speed score is below recommended threshold'',
             affectedPages = [''All pages''],
             recommendation = ''Optimize images, minify CSS/JS, enable compression''\<rparr>]
      else [])
     @ (if \<not> (case m_schemaMarkup metrics of None \<Rightarrow> False | Some s \<Rightarrow> localBusinessSchema s)
        then [\<lparr>severity = Medium, category = ''schema'', title = ''Missing LocalBusiness schema'',
               description = ''LocalBusiness schema markup not detected'',
               affectedPages = [''Homepage''],
               recommendation = ''Add LocalBusiness schema markup''\<rparr>]
        else [])"

record recommendation_item =
  rec_priority :: string
  rec_category :: string
  rec_title :: string
  rec_description :: string
  expectedImpact :: string
  effort :: string

definition generateRecommendations :: "audit_metrics \<Rightarrow> issue list \<Rightarrow> recommendation_item list" where
  "generateRecommendations metrics issues =
     (if (case m_siteSpeed metrics of None \<Rightarrow> False | Some s \<Rightarrow> sp_score (mobile s) < 60)
      then [\<lparr>rec_priority = ''high'', rec_category = ''performance'',
             rec_title = ''Improve mobile page speed'',
             rec_description = ''Mobile page speed significantly impacts rankings'',
             expectedImpact = ''Potential 10-15% ranking improvement'', effort = ''medium''\<rparr>]
      else [])
     @ (if (case m_schemaMarkup metrics of None \<Rightarrow> False | Some s \<Rightarrow> sc_score s < 80)
        then [\<lparr>rec_priority = ''medium'', rec_category = ''schema'',
               rec_title = ''Enhance schema markup'',
               rec_description = ''Add missing schema types for better rich snippets'',
               expectedImpact = ''Improved SERP appearance'', effort = ''low''\<rparr>]
        else [])"

subsection \<open>The service entry points\<close>

record audit_options =
  clinicId :: string
  auditType :: audit_type
  pages :: "string list"
  includeCompetitorComparison :: "bool option"

record technical_audit =
  a_clinicId :: string
  a_auditType :: audit_type
  a_score :: int
  a_metrics :: audit_metrics
  a_issues :: "issue list"
  a_recommendations :: "recommendation_item list"
  rawData :: "page_audit list"

text \<open>
  The collaborators of \<^verbatim>\<open>performAudit\<close>: whether \<^verbatim>\<open>Clinic.findByPk\<close> finds the
  clinic, what the browser gives for each URL, and whether storing the record and
  invalidating the cache succeed.
\<close>

record service_env =
  clinicFound :: "string \<Rightarrow> bool"
  pageEnv :: "string \<Rightarrow> page_env"
  storeOk :: bool

text \<open>
  \<^verbatim>\<open>options.pages.map(url => this.auditPage(...))\<close> calls \<open>auditPage\<close> for every URL
  before anything is awaited, so every browser launch is requested, in the order of the
  list, whatever the later outcome. The second component collects those launches.
\<close>

definition performAudit ::
  "service_env \<Rightarrow> audit_options \<Rightarrow> (audit_error + technical_audit) \<times> string list" where
  "performAudit env options =
     (if \<not> clinicFound env (clinicId options) then (Inl ClinicNotFound, [])
      else
        (let started = map (\<lambda>u. auditPage (pageEnv env u) u (auditType options)) (pages options);
             launches = concat (map snd started)
         in (case promise_all (map fst started) of
               Inl e \<Rightarrow> (Inl e, launches)
             | Inr pageAudits \<Rightarrow>
                 (let aggregatedMetrics = aggregateAuditResults pageAudits;
                      overallScore = calculateOverallScore aggregatedMetrics;
                      issues = identifyIssues aggregatedMetrics;
                      recommendations = generateRecommendations aggregatedMetrics issues
                  in if storeOk env
                     then (Inr \<lparr>a_clinicId = clinicId options, a_auditType = auditType options,
                                a_score = overallScore, a_metrics = aggregatedMetrics,
                                a_issues = issues, a_recommendations = recommendations,
                                rawData = pageAudits\<rparr>, launches)
                     else (Inl StoreFailed, launches)))))"

record job_opts =
  attempts :: nat
  backoff :: string
  timeout :: nat

record job_request =
  jobName :: string
  jobData :: audit_options
  priority :: string
  jobOpts :: job_opts

text \<open>What \<^verbatim>\<open>queueAudit\<close> hands to \<^verbatim>\<open>jobQueue.add\<close>.\<close>

definition queueAudit :: "audit_options \<Rightarrow> job_request" where
  "queueAudit options =
     \<lparr>jobName = ''technical-audit'', jobData = options,
      priority = (if auditType options = Comprehensive then ''high'' else ''medium''),
      jobOpts = \<lparr>attempts = 2, backoff = ''exponential'', timeout = 10 * 60 * 1000\<rparr>\<rparr>"

subsection \<open>Concurrent page audits\<close>

text \<open>
  \<^verbatim>\<open>Promise.all(options.pages.map(url => this.auditPage(url, ...)))\<close>: the callback of
  \<^verbatim>\<open>map\<close> runs for every URL in turn, and each \<open>auditPage\<close> runs up to its first
  \<^verbatim>\<open>await\<close>, which is the call of \<^verbatim>\<open>puppeteer.launch\<close>. So when the first
  continuation runs, one task per URL exists and each is launching its browser. From
  there each task moves on its own: its launch resolves (the browser is open) or rejects,
  and an open browser is closed by the \<^verbatim>\<open>finally\<close>. No task waits for another one.
  A schedule is the order in which these events occur; an event that is not enabled in
  the current state makes the schedule impossible (\<open>None\<close>).
\<close>

datatype task_phase = Launching | BrowserOpen | Finished

datatype sched_event = LaunchResolved nat | LaunchRejected nat | BrowserClosed nat

definition startAll :: "string list \<Rightarrow> task_phase list" where
  "startAll urls = map (\<lambda>_. Launching) urls"

fun fire :: "sched_event \<Rightarrow> task_phase list \<Rightarrow> task_phase list option" where
  "fire (LaunchResolved i) s =
     (if i < length s \<and> s ! i = Launching then Some (s[i := BrowserOpen]) else None)"
| "fire (LaunchRejected i) s =
     (if i < length s \<and> s ! i = Launching then Some (s[i := Finished]) else None)"
| "fire (BrowserClosed i) s =
     (if i < length s \<and> s ! i = BrowserOpen then Some (s[i := Finished]) else None)"

fun runSchedule :: "sched_event list \<Rightarrow> task_phase list \<Rightarrow> task_phase list option" where
  "runSchedule [] s = Some s"
| "runSchedule (e # es) s = (case fire e s of None \<Rightarrow> None | Some s' \<Rightarrow> runSchedule es s')"

definition openBrowsers :: "task_phase list \<Rightarrow> nat" where
  "openBrowsers s = length (filter (\<lambda>p. p = BrowserOpen) s)"

section \<open>The design document's formulas\<close>

text \<open>
  These definitions follow the wording of the design document, not the source; they are
  what the source is compared with.
\<close>

text \<open>
  Composite score of a page: the arithmetic mean of the scores of the checks that did not
  error, the performance check scoring the mean of its desktop and mobile scores; no value
  (the page is unauditable) when no check succeeded.
\<close>

definition checkScores_spec :: "page_results \<Rightarrow> rat list" where
  "checkScores_spec r =
     (case siteSpeed r of None \<Rightarrow> []
      | Some s \<Rightarrow> [(sp_score (desktop s) + sp_score (mobile s)) / 2])
     @ (case crawlability r of None \<Rightarrow> [] | Some c \<Rightarrow> [of_int (cr_score c)])
     @ (case schemaMarkup r of None \<Rightarrow> [] | Some c \<Rightarrow> [of_int (sc_score c)])
     @ (case mobileOptimization r of None \<Rightarrow> [] | Some c \<Rightarrow> [of_int (mo_score c)])"

definition mean_spec :: "rat list \<Rightarrow> rat option" where
  "mean_spec xs = (if xs = [] then None else Some (sum_list xs / of_nat (length xs)))"

definition pageComposite_spec :: "page_audit \<Rightarrow> rat option" where
  "pageComposite_spec p = mean_spec (checkScores_spec (results p))"

text \<open>Overall score: the simple mean of the composites of the pages that have one.\<close>

definition overallScore_spec :: "page_audit list \<Rightarrow> rat option" where
  "overallScore_spec ps = mean_spec (List.map_filter pageComposite_spec ps)"

text \<open>
  Issue order: more severe first, then more affected pages first, then category name,
  then the URL of the first affected page.
\<close>

fun severityRank :: "severity \<Rightarrow> nat" where
  "severityRank Critical = 0"
| "severityRank High = 1"
| "severityRank Medium = 2"
| "severityRank Low = 3"

definition firstAffected :: "issue \<Rightarrow> string" where
  "firstAffected i = (case affectedPages i of [] \<Rightarrow> [] | u # _ \<Rightarrow> u)"

definition issue_before_spec :: "issue \<Rightarrow> issue \<Rightarrow> bool" where
  "issue_before_spec a b =
     (severityRank (severity a) < severityRank (severity b)
      \<or> (severityRank (severity a) = severityRank (severity b)
          \<and> (length (affectedPages b) < length (affectedPages a)
              \<or> (length (affectedPages a) = length (affectedPages b)
                  \<and> (category a < category b
                      \<or> (category a = category b \<and> firstAffected a < firstAffected b))))))"

text \<open>Sorting a list of issues by that order (insertion sort).\<close>

fun insertIssue_spec :: "issue \<Rightarrow> issue list \<Rightarrow> issue list" where
  "insertIssue_spec x [] = [x]"
| "insertIssue_spec x (y # ys) =
     (if issue_before_spec y x then y # insertIssue_spec x ys else x # y # ys)"

definition sortIssues_spec :: "issue list \<Rightarrow> issue list" where
  "sortIssues_spec xs = foldr insertIssue_spec xs []"

section \<open>Example inputs\<close>

text \<open>A page audit that holds only a site-speed result with the given score twice.\<close>

definition speedPage :: "rat \<Rightarrow> page_audit" where
  "speedPage x =
     \<lparr>url = ''https://a.test/'', timestamp = ''2024-01-01T00:00:00.000Z'',
      results =
        \<lparr>siteSpeed = Some
           \<lparr>desktop = \<lparr>sp_score = x, loadTime = 1000, firstContentfulPaint = 1000,
                        largestContentfulPaint = 2000, firstInputDelay = 50,
                        cumulativeLayoutShift = 0\<rparr>,
            mobile = \<lparr>sp_score = x, loadTime = 1000, firstContentfulPaint = 1000,
                       largestContentfulPaint = 2000, firstInputDelay = 50,
                       cumulativeLayoutShift = 0\<rparr>\<rparr>,
         seoElements = None, schemaMarkup = None, crawlability = None,
         mobileOptimization = None\<rparr>\<rparr>"

text \<open>A page audit with no result at all.\<close>

definition blankPage :: page_audit where
  "blankPage = \<lparr>url = ''https://a.test/down'', timestamp = ''2024-01-01T00:00:00.000Z'',
                 results = emptyResults\<rparr>"

text \<open>A page audit whose schema check found no JSON-LD block.\<close>

definition noSchemaPage :: "string \<Rightarrow> page_audit" where
  "noSchemaPage u =
     \<lparr>url = u, timestamp = ''2024-01-01T00:00:00.000Z'',
      results =
        \<lparr>siteSpeed = None, seoElements = None,
         schemaMarkup = Some \<lparr>localBusinessSchema = False, dentistSchema = False,
                              faqSchema = False, reviewSchema = False,
                              organizationSchema = False, schemas = [],
                              sc_score = 0, validationErrors = 0\<rparr>,
         crawlability = None, mobileOptimization = None\<rparr>\<rparr>"

definition goodReport :: lh_report where
  "goodReport = \<lparr>lh_performance = 9 / 10, lh_speed_index = 1000, lh_fcp = 1000,
                  lh_lcp = 2000, lh_max_fid = 50, lh_cls = 0\<rparr>"

definition someSeo :: seo_data where
  "someSeo = \<lparr>seo_title = ''Clinic'', metaDescription = None, h1Count = 1, h2Count = 2,
               imgCount = 3, imgAltMissing = 0, internalLinks = 4, externalLinks = 1,
               canonicalUrl = None, robots = None\<rparr>"

definition fullSchemaBlocks :: "ld_block list" where
  "fullSchemaBlocks =
     [Parsed \<lparr>atType = Some ''DentalClinic'', review = False, aggregateRating = True\<rparr>,
      Parsed \<lparr>atType = Some ''FAQPage'', review = False, aggregateRating = False\<rparr>,
      Parsed \<lparr>atType = Some ''Organization'', review = False, aggregateRating = False\<rparr>]"

text \<open>A page on which every external call succeeds.\<close>

definition goodPage :: page_env where
  "goodPage =
     \<lparr>browserLaunch = Returned (), pageSetup = Returned (),
      lighthouseDesktop = Returned goodReport, lighthouseMobile = Returned goodReport,
      seoDom = Returned someSeo, ldJsonBlocks = Returned fullSchemaBlocks,
      urlOrigin = Some ''https://a.test'',
      robotsResponse = Returned 200, sitemapResponse = Returned 200,
      mobileDom = Returned \<lparr>viewportContent = Some ''width=device-width'', innerWidth = 375\<rparr>,
      browserClose = Returned (), clock = ''2024-01-01T00:00:00.000Z''\<rparr>"

text \<open>A page whose every navigation times out; the browser itself starts and stops.\<close>

definition timeoutPage :: page_env where
  "timeoutPage =
     \<lparr>browserLaunch = Returned (), pageSetup = Returned (),
      lighthouseDesktop = Threw TimeoutError, lighthouseMobile = Threw TimeoutError,
      seoDom = Threw TimeoutError, ldJsonBlocks = Threw TimeoutError,
      urlOrigin = Some ''https://down.test'',
      robotsResponse = Threw TimeoutError, sitemapResponse = Threw TimeoutError,
      mobileDom = Threw TimeoutError,
      browserClose = Returned (), clock = ''2024-01-01T00:00:00.000Z''\<rparr>"

text \<open>The string \<^verbatim>\<open>not-a-url\<close>: it has no origin and no navigation to it succeeds.\<close>

definition notAUrlPage :: page_env where
  "notAUrlPage =
     \<lparr>browserLaunch = Returned (), pageSetup = Returned (),
      lighthouseDesktop = Threw OtherError, lighthouseMobile = Threw OtherError,
      seoDom = Threw OtherError, ldJsonBlocks = Threw OtherError,
      urlOrigin = None,
      robotsResponse = Threw OtherError, sitemapResponse = Threw OtherError,
      mobileDom = Threw OtherError,
      browserClose = Returned (), clock = ''2024-01-01T00:00:00.000Z''\<rparr>"

text \<open>A page that loads but on which every extraction fails, for a cause other than a timeout.\<close>

definition renderErrorPage :: page_env where
  "renderErrorPage =
     \<lparr>browserLaunch = Returned (), pageSetup = Returned (),
      lighthouseDesktop = Threw OtherError, lighthouseMobile = Threw OtherError,
      seoDom = Threw OtherError, ldJsonBlocks = Threw OtherError,
      urlOrigin = Some ''https://broken.test'',
      robotsResponse = Threw OtherError, sitemapResponse = Threw OtherError,
      mobileDom = Threw OtherError,
      browserClose = Returned (), clock = ''2024-01-01T00:00:00.000Z''\<rparr>"

definition demoEnv :: service_env where
  "demoEnv =
     \<lparr>clinicFound = (\<lambda>c. c = ''clinic-1''),
      pageEnv = (\<lambda>u. if u = ''not-a-url'' then notAUrlPage
                      else if u = ''https://down.test/'' then timeoutPage
                      else if u = ''https://broken.test/'' then renderErrorPage
                      else goodPage),
      storeOk = True\<rparr>"

definition demoOptions :: "audit_type \<Rightarrow> string list \<Rightarrow> audit_options" where
  "demoOptions t us = \<lparr>clinicId = ''clinic-1'', auditType = t, pages = us,
                        includeCompetitorComparison = None\<rparr>"

definition fiveUrls :: "string list" where
  "fiveUrls = [''https://a.test/'', ''https://a.test/services'', ''https://a.test/team'',
               ''https://a.test/contact'', ''https://a.test/faq'']"

text \<open>The good page, except that the desktop Lighthouse run and the robots.txt request time out.\<close>

definition slowDesktop :: page_env where
  "slowDesktop = goodPage\<lparr>lighthouseDesktop := Threw TimeoutError,
                             robotsResponse := Threw TimeoutError\<rparr>"

section \<open>Properties\<close>

text \<open>
  C10. Whenever the mobile-optimisation check completes, its score is 25 times the number
  of true flags among the four reported ones; the touch-target and mobile-first flags are
  always true, so the score is 50, 75 or 100 and never below 50.
\<close>

theorem mobile_score_counts_flags:
  assumes "auditMobileOptimization obs = Inr r"
  shows "mo_score r = 25 * int (length (filter (\<lambda>b. b)
           [viewportConfiguration r, responsiveDesign r, touchTargetSize r, mobileFirstIndex r]))
       \<and> touchTargetSize r \<and> mobileFirstIndex r
       \<and> mo_score r \<in> {50, 75, 100} \<and> 50 \<le> mo_score r"
proof -
  from assms obtain d where d: "obs = Returned d"
    by (cases obs) (simp_all add: auditMobileOptimization_def)
  from assms d show ?thesis
    by (auto simp: auditMobileOptimization_def mobileData_def Let_def)
qed

theorem mobile_score_counts_flags_witness:
  "auditMobileOptimization
     (Returned \<lparr>viewportContent = Some ''width=device-width, initial-scale=1'', innerWidth = 375\<rparr>)
   = Inr \<lparr>viewportConfiguration = True, responsiveDesign = True, touchTargetSize = True,
          mobileFirstIndex = True, mo_score = 100\<rparr>
   \<and> mo_score \<lparr>viewportConfiguration = True, responsiveDesign = True, touchTargetSize = True,
          mobileFirstIndex = True, mo_score = 100\<rparr> \<in> {50, 75, 100}"
proof -
  have run: "auditMobileOptimization
     (Returned \<lparr>viewportContent = Some ''width=device-width, initial-scale=1'', innerWidth = 375\<rparr>)
   = Inr \<lparr>viewportConfiguration = True, responsiveDesign = True, touchTargetSize = True,
          mobileFirstIndex = True, mo_score = 100\<rparr>"
    by (simp add: auditMobileOptimization_def mobileData_def Let_def)
  from mobile_score_counts_flags [OF run] run show ?thesis by simp
qed

text \<open>
  C3 (as the code has it). For a page whose URL parses, the crawlability check never
  rejects. When both requests return a response the score is 85, plus 10 if the robots.txt
  status is exactly 200, plus 5 if the sitemap.xml status is exactly 200 (so 85, 90, 95 or
  100), and the two flags are those status tests; the sitemap body is not inspected. When
  either request throws, the result has score 60, both flags false and one crawl error.
\<close>

theorem crawlability_score_as_coded:
  assumes "origin = Some domain"
  shows "\<exists>r. auditCrawlability origin rb sm = Inr r
           \<and> (case (rb, sm) of
                 (Returned rs, Returned ss) \<Rightarrow>
                     robotsTxt r = (rs = 200) \<and> sitemapValid r = (ss = 200)
                   \<and> cr_score r = 85 + (if rs = 200 then 10 else 0) + (if ss = 200 then 5 else 0)
                   \<and> cr_score r \<in> {85, 90, 95, 100} \<and> crawlErrors r = 0
               | _ \<Rightarrow> cr_score r = 60 \<and> \<not> robotsTxt r \<and> \<not> sitemapValid r
                        \<and> crawlErrors r = 1)"
  using assms
  by (cases rb; cases sm) (simp_all add: auditCrawlability_def Let_def)

theorem crawlability_score_as_coded_witness:
  "\<exists>r. auditCrawlability (Some ''https://a.test'') (Returned 200) (Threw TimeoutError) = Inr r
       \<and> cr_score r = 60 \<and> \<not> robotsTxt r \<and> \<not> sitemapValid r \<and> crawlErrors r = 1"
  using crawlability_score_as_coded
          [of "Some ''https://a.test''" "''https://a.test''" "Returned 200" "Threw TimeoutError"]
  by simp

theorem crawlability_score_counterexample:
  "map_sum id cr_score
     (auditCrawlability (Some ''https://a.test'') (Returned 404) (Returned 404)) = Inr 85
   \<and> crawlability_score_spec False False = 70
   \<and> map_sum id cr_score
        (auditCrawlability (Some ''https://a.test'') (Returned 404) (Returned 404))
       \<noteq> Inr (crawlability_score_spec False False)"
  by (simp add: auditCrawlability_def crawlability_score_spec_def Let_def)

text \<open>Removing the malformed blocks does not change what the schema check reads.\<close>

lemma parsedSchemas_drop_malformed:
  "parsedSchemas (filter (\<lambda>b. b \<noteq> Malformed) blocks) = parsedSchemas blocks"
  by (induction blocks rule: parsedSchemas.induct) simp_all

lemma schemaData_drop_malformed:
  "schemaData (filter (\<lambda>b. b \<noteq> Malformed) blocks) = schemaData blocks"
  by (simp add: schemaData_def parsedSchemas_drop_malformed)

lemma set_parsedSchemas: "s \<in> set (parsedSchemas blocks) \<longleftrightarrow> Parsed s \<in> set blocks"
  by (induction blocks rule: parsedSchemas.induct) auto

lemma list_ex_parsedSchemas:
  "list_ex P (parsedSchemas blocks) \<longleftrightarrow> (\<exists>s. Parsed s \<in> set blocks \<and> P s)"
  by (auto simp: list_ex_iff set_parsedSchemas)

lemma hasType_one: "hasType [a] s \<longleftrightarrow> atType s = Some a"
  by (cases "atType s") (simp_all add: hasType_def)

lemma hasType_two: "hasType [a, b] s \<longleftrightarrow> atType s = Some a \<or> atType s = Some b"
  by (cases "atType s") (simp_all add: hasType_def)

lemma schemaData_flags:
  "localBusinessSchema (schemaData blocks)
     = (\<exists>s. Parsed s \<in> set blocks
            \<and> (atType s = Some ''LocalBusiness'' \<or> atType s = Some ''DentalClinic''))"
  "dentistSchema (schemaData blocks)
     = (\<exists>s. Parsed s \<in> set blocks
            \<and> (atType s = Some ''Dentist'' \<or> atType s = Some ''DentalClinic''))"
  "faqSchema (schemaData blocks)
     = (\<exists>s. Parsed s \<in> set blocks \<and> atType s = Some ''FAQPage'')"
  "reviewSchema (schemaData blocks)
     = (\<exists>s. Parsed s \<in> set blocks \<and> (review s \<or> aggregateRating s))"
  "organizationSchema (schemaData blocks)
     = (\<exists>s. Parsed s \<in> set blocks \<and> atType s = Some ''Organization'')"
  by (simp_all add: schemaData_def Let_def list_ex_parsedSchemas hasType_one hasType_two)

text \<open>
  C4 (as the code has it). Whenever the page loads, the schema check returns a result. Its
  score is 30 for a LocalBusiness or DentalClinic block, plus 25 for a Dentist or
  DentalClinic block, plus 20 for an FAQPage block, plus 15 for a block with a review or an
  aggregate rating, plus 10 for an Organization block, each counted once and each flag of
  the result saying exactly whether such a well-formed block is on the page; the sum never
  exceeds 100. A malformed block is skipped and the remaining blocks are still read, but it
  neither lowers the score nor is counted: the result is the one obtained without the
  malformed blocks, and \<open>validationErrors\<close> is always 0.
\<close>

theorem schema_score_as_coded:
  "\<exists>r. auditSchemaMarkup (Returned blocks) = Inr r
       \<and> sc_score r = (if localBusinessSchema r then 30 else 0) + (if dentistSchema r then 25 else 0)
                     + (if faqSchema r then 20 else 0) + (if reviewSchema r then 15 else 0)
                     + (if organizationSchema r then 10 else 0)
       \<and> localBusinessSchema r
           = (\<exists>s. Parsed s \<in> set blocks
                  \<and> (atType s = Some ''LocalBusiness'' \<or> atType s = Some ''DentalClinic''))
       \<and> dentistSchema r
           = (\<exists>s. Parsed s \<in> set blocks
                  \<and> (atType s = Some ''Dentist'' \<or> atType s = Some ''DentalClinic''))
       \<and> faqSchema r = (\<exists>s. Parsed s \<in> set blocks \<and> atType s = Some ''FAQPage'')
       \<and> reviewSchema r = (\<exists>s. Parsed s \<in> set blocks \<and> (review s \<or> aggregateRating s))
       \<and> organizationSchema r
           = (\<exists>s. Parsed s \<in> set blocks \<and> atType s = Some ''Organization'')
       \<and> 0 \<le> sc_score r \<and> sc_score r \<le> 100
       \<and> schemas r = parsedSchemas blocks
       \<and> validationErrors r = 0
       \<and> auditSchemaMarkup (Returned (filter (\<lambda>b. b \<noteq> Malformed) blocks)) = Inr r"
proof -
  define r where "r = schema_data.extend (schemaData blocks)
                        (schema_result.fields (calculateSchemaScore (schemaData blocks)) 0)"
  have run: "auditSchemaMarkup (Returned blocks) = Inr r"
    by (simp add: auditSchemaMarkup_def Let_def r_def)
  have flags: "localBusinessSchema r = localBusinessSchema (schemaData blocks)"
      "dentistSchema r = dentistSchema (schemaData blocks)"
      "faqSchema r = faqSchema (schemaData blocks)"
      "reviewSchema r = reviewSchema (schemaData blocks)"
      "organizationSchema r = organizationSchema (schemaData blocks)"
      "schemas r = schemas (schemaData blocks)"
    by (simp_all add: r_def schema_data.defs schema_result.defs)
  have score: "sc_score r = calculateSchemaScore (schemaData blocks)"
    and errs: "validationErrors r = 0"
    by (simp_all add: r_def schema_data.defs schema_result.defs)
  have sum: "sc_score r = (if localBusinessSchema r then 30 else 0)
                 + (if dentistSchema r then 25 else 0)
                 + (if faqSchema r then 20 else 0) + (if reviewSchema r then 15 else 0)
                 + (if organizationSchema r then 10 else 0)"
    unfolding score flags by (simp add: calculateSchemaScore_def Let_def)
  from sum have bounds: "0 \<le> sc_score r" "sc_score r \<le> 100" by simp_all
  have sch: "schemas r = parsedSchemas blocks"
    unfolding flags by (simp add: schemaData_def Let_def)
  have drop: "auditSchemaMarkup (Returned (filter (\<lambda>b. b \<noteq> Malformed) blocks)) = Inr r"
    by (simp add: auditSchemaMarkup_def Let_def r_def schemaData_drop_malformed)
  from run sum bounds sch errs drop
    flags(1-5) [unfolded schemaData_flags]
  show ?thesis
    by (intro exI [of _ r] conjI)
qed

theorem schema_score_as_coded_witness:
  "\<exists>r. auditSchemaMarkup (Returned [Malformed,
           Parsed \<lparr>atType = Some ''DentalClinic'', review = False, aggregateRating = True\<rparr>]) = Inr r
       \<and> sc_score r = 70 \<and> validationErrors r = 0
       \<and> localBusinessSchema r \<and> dentistSchema r \<and> \<not> faqSchema r \<and> reviewSchema r
       \<and> \<not> organizationSchema r"
  using schema_score_as_coded [of "[Malformed,
           Parsed \<lparr>atType = Some ''DentalClinic'', review = False, aggregateRating = True\<rparr>]"]
  by (simp add: auditSchemaMarkup_def Let_def calculateSchemaScore_def schema_data.defs
        schema_result.defs schemaData_def hasType_def)

text \<open>
  One malformed block next to a LocalBusiness block: the check scores 30 and reports no
  validation error, where the rule with the penalty gives 28 and one malformed block.
\<close>

theorem schema_score_counterexample:
  "map_sum id sc_score (auditSchemaMarkup (Returned [Malformed,
       Parsed \<lparr>atType = Some ''LocalBusiness'', review = False, aggregateRating = False\<rparr>])) = Inr 30
   \<and> schema_score_spec [Malformed,
       Parsed \<lparr>atType = Some ''LocalBusiness'', review = False, aggregateRating = False\<rparr>] = 28
   \<and> map_sum id validationErrors (auditSchemaMarkup (Returned [Malformed,
       Parsed \<lparr>atType = Some ''LocalBusiness'', review = False, aggregateRating = False\<rparr>])) = Inr 0
   \<and> malformedCount [Malformed,
       Parsed \<lparr>atType = Some ''LocalBusiness'', review = False, aggregateRating = False\<rparr>] = 1"
  by (simp add: auditSchemaMarkup_def Let_def calculateSchemaScore_def schema_data.defs
        schema_result.defs schemaData_def hasType_def schema_score_spec_def malformedCount_def)

section \<open>Auxiliary facts\<close>

text \<open>Joining promises, the one rejection value of a page audit, and the launches.\<close>

lemma promise_all_map_Inr: "promise_all (map Inr ys) = Inr ys"
  by (induction ys) simp_all

lemma promise_all_Inl: "Inl e \<in> set xs \<Longrightarrow> \<exists>e'. promise_all xs = Inl e'"
  by (induction xs rule: promise_all.induct) (auto split: sum.splits)

lemma promise_all_Inl_member: "promise_all xs = Inl e \<Longrightarrow> Inl e \<in> set xs"
  by (induction xs rule: promise_all.induct) (auto split: sum.splits)

lemma auditSEOElements_error: "auditSEOElements obs = Inl e \<Longrightarrow> e = PageFailed"
  by (cases obs) (simp_all add: auditSEOElements_def)

lemma auditSchemaMarkup_error: "auditSchemaMarkup obs = Inl e \<Longrightarrow> e = PageFailed"
  by (cases obs) (simp_all add: auditSchemaMarkup_def Let_def)

lemma auditCrawlability_error: "auditCrawlability origin rb sm = Inl e \<Longrightarrow> e = PageFailed"
  by (cases origin; cases rb; cases sm) (simp_all add: auditCrawlability_def Let_def)

lemma auditMobileOptimization_error: "auditMobileOptimization obs = Inl e \<Longrightarrow> e = PageFailed"
  by (cases obs) (simp_all add: auditMobileOptimization_def Let_def)

lemma map_sum_id_Inl: "Inl e = map_sum id f x \<longleftrightarrow> x = Inl e"
  by (cases x) auto

lemma auditPromises_error: "Inl e \<in> set (auditPromises env t) \<Longrightarrow> e = PageFailed"
  unfolding auditPromises_def
  by (auto simp: map_sum_id_Inl split: if_splits
        dest: auditSEOElements_error auditSchemaMarkup_error auditCrawlability_error
              auditMobileOptimization_error)

lemma auditPage_fst:
  "fst (auditPage env u t) =
     (case browserLaunch env of Threw _ \<Rightarrow> Inl PageFailed
      | Returned _ \<Rightarrow>
         (case browserClose env of Threw _ \<Rightarrow> Inl PageFailed
          | Returned _ \<Rightarrow>
             (case pageSetup env of Threw _ \<Rightarrow> Inl PageFailed
              | Returned _ \<Rightarrow>
                 (case promise_all (auditPromises env t) of Inl e \<Rightarrow> Inl e
                  | Inr rs \<Rightarrow> Inr \<lparr>url = u, timestamp = clock env,
                                results = foldl mergeResult emptyResults rs\<rparr>))))"
  unfolding auditPage_def Let_def
  by (cases "browserLaunch env"; cases "browserClose env"; cases "pageSetup env") simp_all

lemma auditPage_error:
  assumes "fst (auditPage env u t) = Inl e"
  shows "e = PageFailed"
proof (cases "promise_all (auditPromises env t)")
  case (Inl e')
  then have "Inl e' \<in> set (auditPromises env t)" by (rule promise_all_Inl_member)
  then have "e' = PageFailed" by (rule auditPromises_error)
  with Inl assms show ?thesis
    unfolding auditPage_fst by (simp split: outcome.splits)
next
  case (Inr rs)
  with assms show ?thesis
    unfolding auditPage_fst by (simp split: outcome.splits)
qed

lemma auditPage_launches: "snd (auditPage env u t) = [u]"
  by (simp add: auditPage_def Let_def split: outcome.splits)

lemma concat_launches:
  "concat (map snd (map (\<lambda>u. auditPage (pe u) u t) us)) = us"
  by (induction us) (simp_all add: auditPage_launches)

lemma performAudit_launches:
  assumes "clinicFound env (clinicId opts)"
  shows "snd (performAudit env opts) = pages opts"
proof -
  define started where
    "started = map (\<lambda>u. auditPage (pageEnv env u) u (auditType opts)) (pages opts)"
  have l: "concat (map snd started) = pages opts"
    unfolding started_def by (rule concat_launches)
  show ?thesis
  proof (cases "promise_all (map fst started)")
    case (Inl e)
    with assms l show ?thesis
      unfolding performAudit_def Let_def started_def [symmetric] by simp
  next
    case (Inr pas)
    with assms l show ?thesis
      unfolding performAudit_def Let_def started_def [symmetric] by simp
  qed
qed

lemma in_map_fst: "u \<in> set us \<Longrightarrow> fst (g u) \<in> set (map fst (map g us))"
  by (induction us) auto

lemma map_fst_member: "x \<in> set (map fst (map g us)) \<Longrightarrow> \<exists>v. fst (g v) = x"
  by (induction us) auto

lemma performAudit_page_failure:
  assumes found: "clinicFound env (clinicId opts)" and u: "u \<in> set (pages opts)"
    and fails: "fst (auditPage (pageEnv env u) u (auditType opts)) = Inl e"
  shows "fst (performAudit env opts) = Inl PageFailed"
proof -
  define g where "g = (\<lambda>u. auditPage (pageEnv env u) u (auditType opts))"
  define xs where "xs = map fst (map g (pages opts))"
  have "fst (g u) \<in> set xs" unfolding xs_def using u by (rule in_map_fst)
  with fails have "Inl e \<in> set xs" by (simp add: g_def)
  then obtain e' where e': "promise_all xs = Inl e'" using promise_all_Inl by fastforce
  then have "Inl e' \<in> set xs" by (rule promise_all_Inl_member)
  then obtain v where "fst (g v) = Inl e'"
    unfolding xs_def using map_fst_member by fastforce
  then have "e' = PageFailed" unfolding g_def by (rule auditPage_error)
  with e' have "promise_all xs = Inl PageFailed" by simp
  with found show ?thesis
    unfolding performAudit_def Let_def g_def [symmetric] xs_def [symmetric] by simp
qed

lemma performAudit_not_found:
  "\<not> clinicFound env (clinicId opts) \<Longrightarrow> performAudit env opts = (Inl ClinicNotFound, [])"
  by (simp add: performAudit_def)

lemma performAudit_empty:
  assumes "clinicFound env (clinicId opts)" "pages opts = []" "storeOk env"
  shows "\<exists>a. fst (performAudit env opts) = Inr a \<and> a_score a = 0 \<and> rawData a = []"
  using assms
  by (simp add: performAudit_def Let_def calculateOverallScore_def aggregateAuditResults_def
        metricScores_def emptyResults_def orZero_def mathRound_def floor_eq_iff)

lemma demo_found: "clinicFound demoEnv (clinicId (demoOptions t us))"
  by (simp add: demoEnv_def demoOptions_def)

text \<open>
  C1 (as the code has it). For every non-empty list of page audits the overall score is
  \<^verbatim>\<open>Math.round\<close> of the mean of five scores of the first page only: desktop speed,
  mobile speed, crawlability, schema markup and mobile optimisation, a missing score
  counting as 0. The other pages, auditable or not, contribute nothing, and the empty list
  scores 0.
\<close>

theorem overall_score_first_page_only:
  "calculateOverallScore (aggregateAuditResults (p # ps)) =
     \<lfloor>(orZero (map_option (\<lambda>s. sp_score (desktop s)) (siteSpeed (results p)))
       + orZero (map_option (\<lambda>s. sp_score (mobile s)) (siteSpeed (results p)))
       + orZero (map_option (\<lambda>c. of_int (cr_score c)) (crawlability (results p)))
       + orZero (map_option (\<lambda>c. of_int (sc_score c)) (schemaMarkup (results p)))
       + orZero (map_option (\<lambda>c. of_int (mo_score c)) (mobileOptimization (results p)))) / 5
      + 1 / 2\<rfloor>
   \<and> calculateOverallScore (aggregateAuditResults (p # ps))
       = calculateOverallScore (aggregateAuditResults [p])
   \<and> calculateOverallScore (aggregateAuditResults []) = 0"
  by (simp add: calculateOverallScore_def aggregateAuditResults_def metricScores_def
        mathRound_def Let_def emptyResults_def orZero_def floor_eq_iff)

theorem overall_score_first_page_only_witness:
  "calculateOverallScore (aggregateAuditResults [speedPage 90, speedPage 80, blankPage]) = 36
   \<and> calculateOverallScore (aggregateAuditResults [speedPage 90]) = 36"
proof -
  note t = overall_score_first_page_only [of "speedPage 90" "[speedPage 80, blankPage]"]
  have r: "\<lfloor>(orZero (map_option (\<lambda>s. sp_score (desktop s)) (siteSpeed (results (speedPage 90))))
       + orZero (map_option (\<lambda>s. sp_score (mobile s)) (siteSpeed (results (speedPage 90))))
       + orZero (map_option (\<lambda>c. of_int (cr_score c)) (crawlability (results (speedPage 90))))
       + orZero (map_option (\<lambda>c. of_int (sc_score c)) (schemaMarkup (results (speedPage 90))))
       + orZero (map_option (\<lambda>c. of_int (mo_score c)) (mobileOptimization (results (speedPage 90))))) / 5
      + 1 / 2\<rfloor> = 36"
    by (simp add: speedPage_def orZero_def floor_eq_iff)
  from t r show ?thesis by simp
qed

text \<open>
  Pages with composites 80 and 90 and a page without any result: the code scores 32 (the
  first page's two speed scores of 80 and three zeros, over five), the mean of the
  auditable pages is 85.
\<close>

theorem overall_score_counterexample:
  "calculateOverallScore (aggregateAuditResults [speedPage 80, speedPage 90, blankPage]) = 32
   \<and> overallScore_spec [speedPage 80, speedPage 90, blankPage] = Some 85
   \<and> pageComposite_spec blankPage = None"
  by (simp add: speedPage_def blankPage_def calculateOverallScore_def aggregateAuditResults_def
        metricScores_def mathRound_def Let_def emptyResults_def orZero_def floor_eq_iff
        overallScore_spec_def pageComposite_spec_def mean_spec_def checkScores_spec_def
        List.map_filter_simps)




text \<open>What the aggregate reads, and the shape of the issue list.\<close>

lemma firstPageResults_cong:
  "map results ps' = map results ps \<Longrightarrow> firstPageResults ps' = firstPageResults ps"
  by (cases ps; cases ps') (simp_all add: firstPageResults_def)

lemma aggregate_firstPage:
  "aggregateAuditResults ps =
     \<lparr>m_siteSpeed = siteSpeed (firstPageResults ps),
      m_crawlability = crawlability (firstPageResults ps),
      m_schemaMarkup = schemaMarkup (firstPageResults ps),
      m_mobileOptimization = mobileOptimization (firstPageResults ps)\<rparr>"
  by (simp add: aggregateAuditResults_def firstPageResults_def Let_def)

lemma aggregate_cong:
  "map results ps' = map results ps \<Longrightarrow> aggregateAuditResults ps' = aggregateAuditResults ps"
  unfolding aggregate_firstPage by (drule firstPageResults_cong) simp

lemma issues_cases:
  "identifyIssues m = [] \<or> (\<exists>a. identifyIssues m = [a] \<and> (severity a = High \<or> severity a = Medium))
   \<or> (\<exists>a b. identifyIssues m = [a, b] \<and> severity a = High \<and> severity b = Medium)"
  by (simp add: identifyIssues_def)

lemma sort_two:
  "severity a = High \<Longrightarrow> severity b = Medium \<Longrightarrow>
   sortIssues_spec [a, b] = [a, b] \<and> sortIssues_spec [b, a] = [a, b]"
  by (simp add: sortIssues_spec_def issue_before_spec_def)

lemma issues_sorted_spec:
  "sorted_wrt issue_before_spec (identifyIssues m)
   \<and> distinct (map severity (identifyIssues m))
   \<and> sortIssues_spec (identifyIssues m) = identifyIssues m
   \<and> sortIssues_spec (rev (identifyIssues m)) = identifyIssues m"
  using issues_cases [of m]
  by (elim disjE exE conjE) (simp_all add: sortIssues_spec_def issue_before_spec_def)

lemma issues_content:
  "map (\<lambda>i. (severity i, category i, title i, affectedPages i))
       (identifyIssues (aggregateAuditResults ps))
     = (if (case siteSpeed (firstPageResults ps) of None \<Rightarrow> False
            | Some s \<Rightarrow> sp_score (desktop s) < 70)
        then [(High, ''performance'', ''Poor desktop performance'', [''All pages''])] else [])
       @ (if (case schemaMarkup (firstPageResults ps) of None \<Rightarrow> True
              | Some s \<Rightarrow> \<not> localBusinessSchema s)
          then [(Medium, ''schema'', ''Missing LocalBusiness schema'', [''Homepage''])] else [])"
  by (cases "schemaMarkup (firstPageResults ps)")
     (simp_all add: identifyIssues_def aggregate_firstPage)

lemma score_content:
  "calculateOverallScore (aggregateAuditResults ps) =
     \<lfloor>(orZero (map_option (\<lambda>s. sp_score (desktop s)) (siteSpeed (firstPageResults ps)))
       + orZero (map_option (\<lambda>s. sp_score (mobile s)) (siteSpeed (firstPageResults ps)))
       + orZero (map_option (\<lambda>c. of_int (cr_score c)) (crawlability (firstPageResults ps)))
       + orZero (map_option (\<lambda>c. of_int (sc_score c)) (schemaMarkup (firstPageResults ps)))
       + orZero (map_option (\<lambda>c. of_int (mo_score c)) (mobileOptimization (firstPageResults ps)))) / 5
      + 1 / 2\<rfloor>"
  by (simp add: calculateOverallScore_def aggregate_firstPage metricScores_def mathRound_def Let_def)

text \<open>
  C6. Aggregation is a function of the check results of the listed pages alone: two calls
  whose inputs carry the same results, whatever the URLs and timestamps, give the same
  score and the same issues in the same order. Score and issues are the stated functions
  of the first page's results. The issue list is ascending in the order "more severe
  first, then more affected pages first, then category name, then URL of the first
  affected page", and sorting the emitted issues by that order, from either arrangement,
  gives the list back. No two issues of one list have the same severity, so severity alone
  decides the order and no tie is left to break.
\<close>

theorem aggregation_deterministic_and_ordered:
  assumes "map results pageAudits' = map results pageAudits"
  shows "calculateOverallScore (aggregateAuditResults pageAudits')
           = calculateOverallScore (aggregateAuditResults pageAudits)
       \<and> identifyIssues (aggregateAuditResults pageAudits')
           = identifyIssues (aggregateAuditResults pageAudits)
       \<and> calculateOverallScore (aggregateAuditResults pageAudits) =
           \<lfloor>(orZero (map_option (\<lambda>s. sp_score (desktop s)) (siteSpeed (firstPageResults pageAudits)))
             + orZero (map_option (\<lambda>s. sp_score (mobile s)) (siteSpeed (firstPageResults pageAudits)))
             + orZero (map_option (\<lambda>c. of_int (cr_score c)) (crawlability (firstPageResults pageAudits)))
             + orZero (map_option (\<lambda>c. of_int (sc_score c)) (schemaMarkup (firstPageResults pageAudits)))
             + orZero (map_option (\<lambda>c. of_int (mo_score c))
                 (mobileOptimization (firstPageResults pageAudits)))) / 5
            + 1 / 2\<rfloor>
       \<and> map (\<lambda>i. (severity i, category i, title i, affectedPages i))
             (identifyIssues (aggregateAuditResults pageAudits))
           = (if (case siteSpeed (firstPageResults pageAudits) of None \<Rightarrow> False
                  | Some s \<Rightarrow> sp_score (desktop s) < 70)
              then [(High, ''performance'', ''Poor desktop performance'', [''All pages''])]
              else [])
             @ (if (case schemaMarkup (firstPageResults pageAudits) of None \<Rightarrow> True
                    | Some s \<Rightarrow> \<not> localBusinessSchema s)
                then [(Medium, ''schema'', ''Missing LocalBusiness schema'', [''Homepage''])]
                else [])
       \<and> sorted_wrt issue_before_spec (identifyIssues (aggregateAuditResults pageAudits))
       \<and> distinct (map severity (identifyIssues (aggregateAuditResults pageAudits)))
       \<and> sortIssues_spec (identifyIssues (aggregateAuditResults pageAudits))
           = identifyIssues (aggregateAuditResults pageAudits)
       \<and> sortIssues_spec (rev (identifyIssues (aggregateAuditResults pageAudits)))
           = identifyIssues (aggregateAuditResults pageAudits)"
proof -
  from assms have eq: "aggregateAuditResults pageAudits' = aggregateAuditResults pageAudits"
    by (rule aggregate_cong)
  note ord = issues_sorted_spec [of "aggregateAuditResults pageAudits"]
  show ?thesis
    unfolding eq
    by (intro conjI refl score_content issues_content
          ord [THEN conjunct1] ord [THEN conjunct2, THEN conjunct1]
          ord [THEN conjunct2, THEN conjunct2, THEN conjunct1]
          ord [THEN conjunct2, THEN conjunct2, THEN conjunct2])
qed

theorem aggregation_deterministic_and_ordered_witness:
  "identifyIssues (aggregateAuditResults
      [speedPage 50\<lparr>timestamp := ''2024-06-30T12:00:00.000Z''\<rparr>, noSchemaPage ''https://b.test/''])
     = identifyIssues (aggregateAuditResults [speedPage 50, noSchemaPage ''https://a.test/''])
   \<and> calculateOverallScore (aggregateAuditResults
      [speedPage 50\<lparr>timestamp := ''2024-06-30T12:00:00.000Z''\<rparr>, noSchemaPage ''https://b.test/''])
     = calculateOverallScore (aggregateAuditResults [speedPage 50, noSchemaPage ''https://a.test/''])
   \<and> map (\<lambda>i. (severity i, category i, title i, affectedPages i))
         (identifyIssues (aggregateAuditResults [speedPage 50, noSchemaPage ''https://a.test/'']))
     = [(High, ''performance'', ''Poor desktop performance'', [''All pages'']),
        (Medium, ''schema'', ''Missing LocalBusiness schema'', [''Homepage''])]
   \<and> sortIssues_spec (rev (identifyIssues
         (aggregateAuditResults [speedPage 50, noSchemaPage ''https://a.test/''])))
     = identifyIssues (aggregateAuditResults [speedPage 50, noSchemaPage ''https://a.test/''])"
proof -
  have same: "map results [speedPage 50\<lparr>timestamp := ''2024-06-30T12:00:00.000Z''\<rparr>,
                           noSchemaPage ''https://b.test/'']
              = map results [speedPage 50, noSchemaPage ''https://a.test/'']"
    by (simp add: speedPage_def noSchemaPage_def)
  have fp: "firstPageResults [speedPage 50, noSchemaPage ''https://a.test/''] = results (speedPage 50)"
    by (simp add: firstPageResults_def)
  note t = aggregation_deterministic_and_ordered [OF same]
  from t fp show ?thesis
    by (simp add: speedPage_def)
qed

text \<open>
  C7 (as the code has it). \<open>performAudit\<close> does not validate the URLs. The one check
  it makes before the page audits is that the clinic exists: if it does not, the call fails
  with the clinic-not-found error and no browser is launched. If it does, a browser is
  launched for every listed URL, well-formed or not, and for the empty list the call
  succeeds with a stored record of score 0 and no page.
\<close>

theorem performAudit_checks_only_clinic:
  "performAudit env opts =
     (if clinicFound env (clinicId opts) then (fst (performAudit env opts), pages opts)
      else (Inl ClinicNotFound, []))
   \<and> (clinicFound env (clinicId opts) \<and> pages opts = [] \<and> storeOk env \<longrightarrow>
        (\<exists>a. fst (performAudit env opts) = Inr a \<and> a_score a = 0 \<and> rawData a = []))"
proof (cases "clinicFound env (clinicId opts)")
  case True
  then have "snd (performAudit env opts) = pages opts" by (rule performAudit_launches)
  then have "performAudit env opts = (fst (performAudit env opts), pages opts)"
    by (metis prod.collapse)
  with True performAudit_empty [of env opts] show ?thesis by simp
next
  case False
  then show ?thesis by (simp add: performAudit_not_found)
qed

theorem performAudit_checks_only_clinic_witness:
  "performAudit demoEnv (demoOptions Comprehensive [])
     = (fst (performAudit demoEnv (demoOptions Comprehensive [])), [])
   \<and> (\<exists>a. fst (performAudit demoEnv (demoOptions Comprehensive [])) = Inr a
          \<and> a_score a = 0 \<and> rawData a = [])"
  using performAudit_checks_only_clinic [of demoEnv "demoOptions Comprehensive []"]
  by (simp add: demoEnv_def demoOptions_def)

text \<open>
  With an existing clinic, the empty list gives a record of score 0 instead of an error;
  the string \<^verbatim>\<open>not-a-url\<close> gives a record as well for a basic audit, and for a
  comprehensive one the failure comes only after the browser was launched for it.
\<close>

theorem performAudit_validation_counterexample:
  "map_prod (map_sum id a_score) id (performAudit demoEnv (demoOptions Comprehensive []))
     = (Inr 0, [])
   \<and> map_prod (map_sum id a_score) id (performAudit demoEnv (demoOptions Basic [''not-a-url'']))
     = (Inr 0, [''not-a-url''])
   \<and> map_prod (map_sum id a_score) id
        (performAudit demoEnv (demoOptions Comprehensive [''not-a-url'']))
     = (Inl PageFailed, [''not-a-url''])"
  by code_simp

text \<open>
  C8 (as the code has it). Within one call of \<open>performAudit\<close> no page is retried: for an
  existing clinic the browser is launched exactly once for each listed URL, whatever the
  cause of a failure, and a page audit that rejects, for a timeout or for any other cause,
  makes the whole call reject instead of marking the page. The only repetition is the one
  \<open>queueAudit\<close> asks of the job queue: two attempts of the whole job.
\<close>

theorem no_page_retry:
  assumes "clinicFound env (clinicId opts)"
  shows "(\<forall>u. count_list (snd (performAudit env opts)) u = count_list (pages opts) u)
       \<and> (\<forall>u \<in> set (pages opts). \<forall>e.
             fst (auditPage (pageEnv env u) u (auditType opts)) = Inl e
             \<longrightarrow> fst (performAudit env opts) = Inl PageFailed)
       \<and> attempts (jobOpts (queueAudit opts)) = 2"
  using assms
  by (auto simp: performAudit_launches queueAudit_def intro: performAudit_page_failure)

theorem no_page_retry_witness:
  "count_list (snd (performAudit demoEnv (demoOptions Comprehensive [''https://down.test/''])))
     ''https://down.test/'' = 1
   \<and> fst (performAudit demoEnv (demoOptions Comprehensive [''https://down.test/''])) = Inl PageFailed"
proof -
  have f: "fst (auditPage (pageEnv demoEnv ''https://down.test/'') ''https://down.test/''
             (auditType (demoOptions Comprehensive [''https://down.test/''])))
           = Inl PageFailed"
    by code_simp
  have p: "pages (demoOptions Comprehensive [''https://down.test/'']) = [''https://down.test/'']"
    by (simp add: demoOptions_def)
  from no_page_retry [OF demo_found, of Comprehensive "[''https://down.test/'']"] f p
  show ?thesis by simp
qed

text \<open>
  A page whose navigations all time out: one browser launch for its URL, not two, and the
  call fails as a whole. A page that fails for another cause is treated in the same way,
  and the job options are the same two attempts for both.
\<close>

theorem retry_counterexample:
  "performAudit demoEnv (demoOptions Comprehensive [''https://down.test/''])
     = (Inl PageFailed, [''https://down.test/''])
   \<and> count_list [''https://down.test/''] ''https://down.test/'' \<noteq> (2 :: nat)
   \<and> performAudit demoEnv (demoOptions Comprehensive [''https://broken.test/''])
     = (Inl PageFailed, [''https://broken.test/''])
   \<and> jobOpts (queueAudit (demoOptions Comprehensive [''https://down.test/'']))
     = jobOpts (queueAudit (demoOptions Comprehensive [''https://broken.test/'']))"
proof (intro conjI)
  show "performAudit demoEnv (demoOptions Comprehensive [''https://down.test/''])
     = (Inl PageFailed, [''https://down.test/''])"
    by code_simp
  show "count_list [''https://down.test/''] ''https://down.test/'' \<noteq> (2 :: nat)"
    by simp
  show "performAudit demoEnv (demoOptions Comprehensive [''https://broken.test/''])
     = (Inl PageFailed, [''https://broken.test/''])"
    by code_simp
  show "jobOpts (queueAudit (demoOptions Comprehensive [''https://down.test/'']))
     = jobOpts (queueAudit (demoOptions Comprehensive [''https://broken.test/'']))"
    by (simp add: queueAudit_def)
qed

lemma auditCrawlability_Some: "\<exists>r. auditCrawlability (Some d) rb sm = Inr r"
  by (cases rb; cases sm) (simp_all add: auditCrawlability_def Let_def)

text \<open>
  C2 (as the code has it). In a comprehensive audit of a page whose browser starts and stops
  and whose URL parses, a failure of the performance check or of a request of the
  crawlability check is contained: provided the SEO, schema and mobile checks complete, the
  page audit resolves and holds their results unchanged, with \<open>siteSpeed\<close> null when a
  Lighthouse run threw and the crawlability result the check returned (its fallback when a
  request threw). The page result consists of the URL, the timestamp and these five
  entries; it carries no composite score and no unauditable mark.
\<close>

theorem speed_and_crawl_failures_contained:
  assumes browser: "browserLaunch env = Returned ()" "pageSetup env = Returned ()"
      "browserClose env = Returned ()"
    and checks: "seoDom env = Returned seo" "ldJsonBlocks env = Returned blocks"
      "mobileDom env = Returned md"
    and origin: "urlOrigin env = Some d"
  shows "\<exists>sr cr mr.
           auditSchemaMarkup (Returned blocks) = Inr sr
         \<and> auditCrawlability (Some d) (robotsResponse env) (sitemapResponse env) = Inr cr
         \<and> auditMobileOptimization (Returned md) = Inr mr
         \<and> fst (auditPage env u Comprehensive)
             = Inr \<lparr>url = u, timestamp = clock env,
                    results = \<lparr>siteSpeed =
                                 (case (lighthouseDesktop env, lighthouseMobile env) of
                                    (Returned a, Returned b) \<Rightarrow>
                                      Some \<lparr>desktop = speedMetrics a, mobile = speedMetrics b\<rparr>
                                  | _ \<Rightarrow> None),
                               seoElements = Some seo, schemaMarkup = Some sr,
                               crawlability = Some cr, mobileOptimization = Some mr\<rparr>\<rparr>"
proof -
  obtain sr where sr: "auditSchemaMarkup (Returned blocks) = Inr sr"
    by (simp add: auditSchemaMarkup_def Let_def)
  from auditCrawlability_Some [of d "robotsResponse env" "sitemapResponse env"]
  obtain cr where cr: "auditCrawlability (Some d) (robotsResponse env) (sitemapResponse env) = Inr cr" ..
  obtain mr where mr: "auditMobileOptimization (Returned md) = Inr mr"
    by (simp add: auditMobileOptimization_def Let_def)
  have sp: "auditPageSpeed (lighthouseDesktop env) (lighthouseMobile env)
              = (case (lighthouseDesktop env, lighthouseMobile env) of
                   (Returned a, Returned b) \<Rightarrow>
                     Some \<lparr>desktop = speedMetrics a, mobile = speedMetrics b\<rparr>
                 | _ \<Rightarrow> None)"
    by (cases "lighthouseDesktop env"; cases "lighthouseMobile env")
       (simp_all add: auditPageSpeed_def)
  have ps: "auditPromises env Comprehensive =
              [Inr (SiteSpeedR (auditPageSpeed (lighthouseDesktop env) (lighthouseMobile env))),
               Inr (SeoR seo), Inr (SchemaR sr), Inr (CrawlR cr), Inr (MobileR mr)]"
    by (simp add: auditPromises_def checks origin auditSEOElements_def sr cr mr)
  have pa: "promise_all (auditPromises env Comprehensive) =
              Inr [SiteSpeedR (auditPageSpeed (lighthouseDesktop env) (lighthouseMobile env)),
                   SeoR seo, SchemaR sr, CrawlR cr, MobileR mr]"
    unfolding ps by simp
  have "fst (auditPage env u Comprehensive)
          = Inr \<lparr>url = u, timestamp = clock env,
                 results = \<lparr>siteSpeed = auditPageSpeed (lighthouseDesktop env) (lighthouseMobile env),
                            seoElements = Some seo, schemaMarkup = Some sr,
                            crawlability = Some cr, mobileOptimization = Some mr\<rparr>\<rparr>"
    unfolding auditPage_fst pa by (simp add: browser emptyResults_def)
  then have "fst (auditPage env u Comprehensive)
             = Inr \<lparr>url = u, timestamp = clock env,
                    results = \<lparr>siteSpeed =
                                 (case (lighthouseDesktop env, lighthouseMobile env) of
                                    (Returned a, Returned b) \<Rightarrow>
                                      Some \<lparr>desktop = speedMetrics a, mobile = speedMetrics b\<rparr>
                                  | _ \<Rightarrow> None),
                               seoElements = Some seo, schemaMarkup = Some sr,
                               crawlability = Some cr, mobileOptimization = Some mr\<rparr>\<rparr>"
    unfolding sp .
  with sr cr mr show ?thesis
    by (intro exI [of _ sr] exI [of _ cr] exI [of _ mr] conjI)
qed

theorem speed_and_crawl_failures_contained_witness:
  "\<exists>sr cr mr.
      auditSchemaMarkup (Returned fullSchemaBlocks) = Inr sr
    \<and> auditCrawlability (Some ''https://a.test'') (Threw TimeoutError) (Returned 200) = Inr cr
    \<and> auditMobileOptimization
        (Returned \<lparr>viewportContent = Some ''width=device-width'', innerWidth = 375\<rparr>) = Inr mr
    \<and> fst (auditPage slowDesktop ''https://a.test/'' Comprehensive)
        = Inr \<lparr>url = ''https://a.test/'', timestamp = ''2024-01-01T00:00:00.000Z'',
               results = \<lparr>siteSpeed = None, seoElements = Some someSeo, schemaMarkup = Some sr,
                          crawlability = Some cr, mobileOptimization = Some mr\<rparr>\<rparr>"
  using speed_and_crawl_failures_contained [of slowDesktop someSeo fullSchemaBlocks
      "\<lparr>viewportContent = Some ''width=device-width'', innerWidth = 375\<rparr>" "''https://a.test''"
      "''https://a.test/''"]
  by (simp add: slowDesktop_def goodPage_def)

text \<open>
  When only the schema check fails the page audit rejects and no result is left; when only
  the performance check fails the page resolves, but its score counts the two missing
  speed scores as zeros (60, where the mean of the three completed checks is 100); when
  every navigation fails the page audit rejects instead of being marked.
\<close>

theorem page_audit_counterexample:
  "fst (auditPage (goodPage\<lparr>ldJsonBlocks := Threw TimeoutError\<rparr>) ''https://a.test/'' Comprehensive)
     = Inl PageFailed
   \<and> map_sum id (\<lambda>p. (calculateOverallScore (aggregateAuditResults [p]), pageComposite_spec p))
        (fst (auditPage (goodPage\<lparr>lighthouseDesktop := Threw TimeoutError\<rparr>)
                ''https://a.test/'' Comprehensive))
     = Inr (60, Some 100)
   \<and> fst (auditPage timeoutPage ''https://down.test/'' Comprehensive) = Inl PageFailed"
  by code_simp

lemma runSchedule_append:
  "runSchedule (es @ fs) s = (case runSchedule es s of None \<Rightarrow> None | Some s' \<Rightarrow> runSchedule fs s')"
  by (induction es arbitrary: s) (simp_all split: option.splits)

lemma open_next:
  assumes "k < n"
  shows "(replicate k BrowserOpen @ replicate (n - k) Launching)[k := BrowserOpen]
           = replicate (Suc k) BrowserOpen @ replicate (n - Suc k) Launching"
proof -
  from assms have "n - k = Suc (n - Suc k)" by simp
  then have "replicate (n - k) Launching = Launching # replicate (n - Suc k) Launching"
    by simp
  then show ?thesis
    by (simp add: list_update_append replicate_append_same)
qed

lemma open_prefix:
  "k \<le> n \<Longrightarrow>
   runSchedule (map LaunchResolved [0..<k]) (replicate n Launching)
     = Some (replicate k BrowserOpen @ replicate (n - k) Launching)"
proof (induction k)
  case 0
  show ?case by simp
next
  case (Suc k)
  then have k: "k < n" by simp
  with Suc have ih: "runSchedule (map LaunchResolved [0..<k]) (replicate n Launching)
     = Some (replicate k BrowserOpen @ replicate (n - k) Launching)" by simp
  from k have at: "(replicate k BrowserOpen @ replicate (n - k) Launching) ! k = Launching"
    by (simp add: nth_append)
  from k at show ?case
    by (simp add: runSchedule_append ih open_next)
qed

lemma all_open: "runSchedule (map LaunchResolved [0..<length urls]) (startAll urls)
                   = Some (replicate (length urls) BrowserOpen)"
  using open_prefix [of "length urls" "length urls"]
  by (simp add: startAll_def map_replicate_const)

lemma fire_length: "fire e s = Some s' \<Longrightarrow> length s' = length s"
  by (cases e) (auto split: if_splits)

lemma runSchedule_length: "runSchedule es s = Some s' \<Longrightarrow> length s' = length s"
  by (induction es arbitrary: s) (auto split: option.splits dest: fire_length)

lemma openBrowsers_replicate: "openBrowsers (replicate n BrowserOpen) = n"
  by (simp add: openBrowsers_def)

lemma openBrowsers_bound:
  "runSchedule es (startAll urls) = Some s \<Longrightarrow> openBrowsers s \<le> length urls"
  using runSchedule_length [of es "startAll urls" s]
  by (simp add: openBrowsers_def startAll_def) (metis length_filter_le)

text \<open>
  C9 (as the code has it). \<open>performAudit\<close> has no concurrency limit. The audits of all
  URLs are started at once, in the order of the list, so for every URL list there is a
  schedule on which the browsers of all URLs are open at the same time; the number of
  browsers open together is bounded by the number of URLs and by nothing else.
\<close>

theorem all_browsers_open_together:
  "runSchedule (map LaunchResolved [0..<length urls]) (startAll urls)
     = Some (replicate (length urls) BrowserOpen)
   \<and> openBrowsers (replicate (length urls) BrowserOpen) = length urls
   \<and> (\<forall>es s. runSchedule es (startAll urls) = Some s \<longrightarrow> openBrowsers s \<le> length urls)
   \<and> (clinicFound env (clinicId opts) \<longrightarrow> snd (performAudit env opts) = pages opts)"
  by (simp add: all_open openBrowsers_replicate openBrowsers_bound performAudit_launches)

theorem all_browsers_open_together_witness:
  "runSchedule (map LaunchResolved [0..<5]) (startAll fiveUrls) = Some (replicate 5 BrowserOpen)
   \<and> openBrowsers (replicate 5 BrowserOpen) \<le> 5
   \<and> snd (performAudit demoEnv (demoOptions Comprehensive fiveUrls)) = fiveUrls"
proof -
  have n: "length fiveUrls = 5" by (simp add: fiveUrls_def)
  have p: "pages (demoOptions Comprehensive fiveUrls) = fiveUrls" by (simp add: demoOptions_def)
  from all_browsers_open_together [of fiveUrls demoEnv "demoOptions Comprehensive fiveUrls"]
    demo_found [of Comprehensive fiveUrls] n p
  show ?thesis by simp
qed

text \<open>
  Five URLs: after the five launches have resolved, five browsers are open, more than
  the four of the design document's default limit.
\<close>

theorem bounded_concurrency_counterexample:
  "runSchedule (map LaunchResolved [0..<5]) (startAll fiveUrls) = Some (replicate 5 BrowserOpen)
   \<and> 4 < openBrowsers (replicate 5 BrowserOpen)"
  by code_simp

end
